theory Spec2Isabelle
  imports Main "HOL-Library.AList"
begin

section \<open>Strings\<close>

text \<open>
  The source is TypeScript. A JavaScript string is a sequence of UTF-16 code units and
  \<open>s.length\<close> counts them; here a string is a list of characters and \<open>length\<close> counts
  its elements, one element standing for one code unit.
\<close>

text \<open>\<open>s.includes(c)\<close> for a one-character needle.\<close>

definition includes_char :: "string \<Rightarrow> char \<Rightarrow> bool" where
  "includes_char s c = (c \<in> set s)"

text \<open>\<open>s.startsWith(p)\<close> and \<open>s.includes(p)\<close> for an arbitrary needle.\<close>

fun starts_with :: "string \<Rightarrow> string \<Rightarrow> bool" where
  "starts_with s [] = True"
| "starts_with [] (p # ps) = False"
| "starts_with (c # cs) (p # ps) = (c = p \<and> starts_with cs ps)"

fun includes_str :: "string \<Rightarrow> string \<Rightarrow> bool" where
  "includes_str [] p = (p = [])"
| "includes_str (c # cs) p = (starts_with (c # cs) p \<or> includes_str cs p)"

text \<open>\<open>lines.join(sep)\<close>, and \<open>lines.join("\n")\<close>.\<close>

fun join_str :: "string \<Rightarrow> string list \<Rightarrow> string" where
  "join_str sep [] = []"
| "join_str sep [l] = l"
| "join_str sep (l # m # ls) = l @ sep @ join_str sep (m # ls)"

definition join_nl :: "string list \<Rightarrow> string" where
  "join_nl ls = join_str [CHR 0x0A] ls"

text \<open>The decimal digits of a number, as a template literal prints it.\<close>

function show_nat :: "nat \<Rightarrow> string" where
  "show_nat n =
     (if n < 10 then [''0123456789'' ! n]
      else show_nat (n div 10) @ [''0123456789'' ! (n mod 10)])"
  by pat_completeness auto
termination
  by (relation "measure id") auto

declare show_nat.simps [simp del]

text \<open>
  \<open>s.split("\n")\<close>: the pieces between the newlines, empty pieces included; the empty
  string gives one empty piece.
\<close>

fun split_nl :: "string \<Rightarrow> string list" where
  "split_nl [] = [[]]"
| "split_nl (c # cs) =
     (if c = CHR 0x0A then [] # split_nl cs
      else (case split_nl cs of [] \<Rightarrow> [[c]] | l # ls \<Rightarrow> (c # l) # ls))"

section \<open>Capture of a child's standard error (\<open>_spawnStdio\<close>)\<close>

definition MAX_STDERR_LINES :: nat where
  "MAX_STDERR_LINES = 50"

definition MAX_STDERR_LINE_LENGTH :: nat where
  "MAX_STDERR_LINE_LENGTH = 1000"

text \<open>
  The line that is stored for a raw line: a raw line longer than
  \<open>MAX_STDERR_LINE_LENGTH\<close> is cut with \<open>slice(0, MAX_STDERR_LINE_LENGTH)\<close> and the
  three characters \<open>...\<close> are appended.
\<close>

definition stderr_line :: "string \<Rightarrow> string" where
  "stderr_line rawLine =
     (if length rawLine > MAX_STDERR_LINE_LENGTH
      then take MAX_STDERR_LINE_LENGTH rawLine @ ''...''
      else rawLine)"

text \<open>One turn of the loop body: \<open>push\<close>, then \<open>shift\<close> when the buffer is over its limit.\<close>

definition stderr_push :: "string \<Rightarrow> string list \<Rightarrow> string list" where
  "stderr_push rawLine stderrBuffer =
     (let pushed = stderrBuffer @ [stderr_line rawLine]
      in if length pushed > MAX_STDERR_LINES then tl pushed else pushed)"

text \<open>
  The \<open>data\<close> handler of the stderr stream: the chunk is split at newlines, empty pieces
  are dropped (\<open>filter(Boolean)\<close>), and the loop body runs on each remaining piece in order.
\<close>

definition stderr_lines :: "string \<Rightarrow> string list" where
  "stderr_lines chunk = filter (\<lambda>l. l \<noteq> []) (split_nl chunk)"

definition stderr_on_data :: "string list \<Rightarrow> string \<Rightarrow> string list" where
  "stderr_on_data stderrBuffer chunk = fold stderr_push (stderr_lines chunk) stderrBuffer"

definition stderr_tail :: "string list \<Rightarrow> string list" where
  "stderr_tail chunks = foldl stderr_on_data [] chunks"

text \<open>
  \<open>stderr_tail\<close> is the buffer of an instance after the chunks its stream has delivered so
  far: \<open>_doSpawn\<close> creates the instance with \<open>stderrBuffer: []\<close> and only the \<open>data\<close>
  handler writes to it.
\<close>

section \<open>Data model (\<open>types.ts\<close>)\<close>

datatype transport_type = STDIO | SSE | STREAMABLE_HTTP

text \<open>
  \<open>ServerConfig\<close>. An optional field is an \<open>option\<close>; the field \<open>type\<close> of the source is
  \<open>stype\<close> here. A \<open>Record<string, string>\<close> is an association list.
\<close>

record ServerConfig =
  name :: string
  stype :: transport_type
  command :: "string option"
  args :: "string list option"
  env :: "(string \<times> string) list option"
  url :: "string option"
  description :: "string option"
  headers :: "(string \<times> string) list option"
  stateful :: "bool option"

datatype server_status = Connecting | Connected | Error | Stopped

text \<open>
  \<open>ManagedServer\<close>. The field \<open>name\<close> of the source is \<open>server_name\<close> here; \<open>client\<close> and
  \<open>transport\<close> say whether the object is present (\<open>False\<close> for \<open>null\<close>); a cached tool is
  represented by its name.
\<close>

record ManagedServer =
  server_name :: string
  config :: ServerConfig
  client :: bool
  transport :: bool
  status :: server_status
  tools :: "string list"
  pid :: "nat option"
  stderrBuffer :: "string list"
  errorMessage :: "string option"
  reconnectAttempts :: nat

record ServerInstance =
  internalName :: string
  baseName :: string
  index :: nat
  busy :: bool
  lastActiveAt :: nat

text \<open>\<open>QueuedRequest\<close>, without the two callbacks that settle the caller's promise.\<close>

record QueuedRequest =
  serverName :: string
  toolName :: string
  enqueuedAt :: nat

text \<open>
  The state of the \<open>ProcessManager\<close>, of the \<open>RequestQueue\<close> it owns (\<open>queues\<close>,
  \<open>instances\<close>, \<open>pendingScaleUps\<close>) and of the two tables of \<open>db.ts\<close> it writes
  (\<open>db_servers\<close>, \<open>db_pids\<close>). A JavaScript \<open>Map\<close> is an association list in insertion
  order with one entry per key, a \<open>Set\<close> a list without duplicates. A reconnect timer
  is represented by its delay in milliseconds.
\<close>

record ProcessManager =
  servers :: "(string \<times> ManagedServer) list"
  reconnectTimers :: "(string \<times> nat) list"
  scalingInProgress :: "string list"
  queues :: "(string \<times> QueuedRequest list) list"
  instances :: "(string \<times> ServerInstance list) list"
  pendingScaleUps :: "string list"
  db_servers :: "(string \<times> ServerConfig) list"
  db_pids :: "(string \<times> nat) list"

text \<open>\<open>Map.has\<close>; \<open>Map.get\<close> is \<open>map_of\<close>, \<open>Map.set\<close> is \<open>AList.update\<close>, \<open>Map.delete\<close> is \<open>AList.delete\<close>.\<close>

definition map_has :: "('k \<times> 'v) list \<Rightarrow> 'k \<Rightarrow> bool" where
  "map_has m k = (map_of m k \<noteq> None)"

text \<open>\<open>!s\<close> for an optional string: \<open>undefined\<close> and the empty string are falsy.\<close>

definition falsy_str :: "string option \<Rightarrow> bool" where
  "falsy_str s = (s = None \<or> s = Some [])"

text \<open>\<open>s || null\<close>.\<close>

definition or_null :: "string option \<Rightarrow> string option" where
  "or_null s = (if falsy_str s then None else s)"

section \<open>Configuration constants (\<open>config.ts\<close>)\<close>

definition AUTO_RECONNECT_MAX_RETRIES :: nat where
  "AUTO_RECONNECT_MAX_RETRIES = 3"

definition AUTO_RECONNECT_BASE_DELAY_MS :: nat where
  "AUTO_RECONNECT_BASE_DELAY_MS = 2000"

definition KNOWN_STATEFUL_SERVERS :: "string list" where
  "KNOWN_STATEFUL_SERVERS =
     [''playwright'', ''puppeteer'', ''puppeteer-mcp'', ''sequential-thinking'', ''git-mcp'']"

text \<open>
  \<open>MAX_SERVER_INSTANCES\<close> is read from the environment when the module loads, with 4 as
  the default; the operations below take it as the parameter \<open>max_instances\<close>.
\<close>

definition DEFAULT_MAX_SERVER_INSTANCES :: nat where
  "DEFAULT_MAX_SERVER_INSTANCES = 4"

section \<open>Persistence (\<open>db.ts\<close>)\<close>

text \<open>
  \<open>upsertServer\<close>: the row stored under the configuration's name. Falsy strings are
  stored as \<open>NULL\<close>, missing lists and records as empty ones, and the stateful flag is
  taken from the set of known stateful servers when the configuration does not give it.
\<close>

definition upsertServer ::
  "ServerConfig \<Rightarrow> (string \<times> ServerConfig) list \<Rightarrow> (string \<times> ServerConfig) list" where
  "upsertServer cfg tbl =
     AList.update (name cfg)
       (cfg\<lparr>command := or_null (command cfg),
            args := Some (case args cfg of None \<Rightarrow> [] | Some a \<Rightarrow> a),
            env := Some (case env cfg of None \<Rightarrow> [] | Some e \<Rightarrow> e),
            url := or_null (url cfg),
            description := or_null (description cfg),
            headers := Some (case headers cfg of None \<Rightarrow> [] | Some h \<Rightarrow> h),
            stateful := Some (case stateful cfg of
                                None \<Rightarrow> name cfg \<in> set KNOWN_STATEFUL_SERVERS
                              | Some b \<Rightarrow> b)\<rparr>)
       tbl"

definition savePid :: "string \<Rightarrow> nat \<Rightarrow> (string \<times> nat) list \<Rightarrow> (string \<times> nat) list" where
  "savePid n p tbl = AList.update n p tbl"

section \<open>Request queue (\<open>request-queue.ts\<close>)\<close>

definition getInstances :: "ProcessManager \<Rightarrow> string \<Rightarrow> ServerInstance list" where
  "getInstances st base = (case map_of (instances st) base of None \<Rightarrow> [] | Some l \<Rightarrow> l)"

text \<open>\<open>list[list.findIndex(P)] = y\<close> when some element satisfies \<open>P\<close>: the first one is replaced.\<close>

fun replace_first :: "('a \<Rightarrow> bool) \<Rightarrow> 'a \<Rightarrow> 'a list \<Rightarrow> 'a list" where
  "replace_first P y [] = []"
| "replace_first P y (x # xs) = (if P x then y # xs else x # replace_first P y xs)"

text \<open>
  \<open>registerInstance\<close>: the first instance with the same internal name is replaced in
  place; without one the instance is appended.
\<close>

definition registerInstance :: "ServerInstance \<Rightarrow> ProcessManager \<Rightarrow> ProcessManager" where
  "registerInstance inst st =
     (let l = getInstances st (baseName inst);
          l' = (if \<exists>i \<in> set l. internalName i = internalName inst
                then replace_first (\<lambda>i. internalName i = internalName inst) inst l
                else l @ [inst])
      in st\<lparr>instances := AList.update (baseName inst) l' (instances st)\<rparr>)"

definition clearPendingScaleUp :: "string \<Rightarrow> ProcessManager \<Rightarrow> ProcessManager" where
  "clearPendingScaleUp base st = st\<lparr>pendingScaleUps := removeAll base (pendingScaleUps st)\<rparr>"

text \<open>
  \<open>drainServer\<close>: every queued request is rejected and the queue deleted, all instances
  of the base are unregistered, the pending scale-up flag is cleared.
\<close>

definition drainServer :: "string \<Rightarrow> ProcessManager \<Rightarrow> ProcessManager" where
  "drainServer base st =
     st\<lparr>queues := AList.delete base (queues st),
        instances := AList.delete base (instances st),
        pendingScaleUps := removeAll base (pendingScaleUps st)\<rparr>"

text \<open>
  The loop of \<open>_dispatch\<close>: in registration order, each instance that is not busy takes
  the request at the head of the queue and becomes busy, until the queue is empty.
\<close>

fun dispatch_loop ::
  "ServerInstance list \<Rightarrow> QueuedRequest list \<Rightarrow> ServerInstance list \<times> QueuedRequest list" where
  "dispatch_loop [] q = ([], q)"
| "dispatch_loop (i # is) q =
     (if q = [] then (i # is, q)
      else if busy i then (let (is', q') = dispatch_loop is q in (i # is', q'))
      else (let (is', q') = dispatch_loop is (tl q) in (i\<lparr>busy := True\<rparr> # is', q')))"

text \<open>
  \<open>_dispatch\<close> (also \<open>triggerDispatch\<close>). With a non-empty queue and no instance
  registered, a primary instance is registered first.
\<close>

definition dispatch :: "string \<Rightarrow> nat \<Rightarrow> ProcessManager \<Rightarrow> ProcessManager" where
  "dispatch base now st =
     (case map_of (queues st) base of
        None \<Rightarrow> st
      | Some q \<Rightarrow>
          if q = [] then st
          else
            (let st1 = (if getInstances st base = []
                        then registerInstance
                               \<lparr>internalName = base, baseName = base, index = 0,
                                busy = False, lastActiveAt = now\<rparr> st
                        else st);
                 (is', q') = dispatch_loop (getInstances st1 base) q
             in st1\<lparr>instances := AList.update base is' (instances st1),
                    queues := AList.update base q' (queues st1)\<rparr>))"

section \<open>Process manager (\<open>process-manager.ts\<close>)\<close>

text \<open>
  An \<open>await\<close> is a point where other tasks may run. \<open>stopServer\<close> writes the maps only
  before its first wait and is one step here; \<open>_doSpawn\<close> and \<open>_handleScaleUp\<close> are
  given stretch by stretch. What the outside world answers (whether the transport
  connects, what the child writes to stderr) is a parameter. Emitted events and log
  lines are left out.
\<close>

text \<open>A name with \<open>#\<close> is a scaled instance, a name with \<open>@\<close> a session instance.\<close>

definition is_derived :: "string \<Rightarrow> bool" where
  "is_derived n = (includes_char n (CHR ''#'') \<or> includes_char n (CHR ''@''))"

text \<open>\<open>savePids\<close>: the PID of every primary instance that has one.\<close>

definition savePids :: "ProcessManager \<Rightarrow> ProcessManager" where
  "savePids st =
     st\<lparr>db_pids :=
          fold (\<lambda>(n, server) tbl.
                  if is_derived n then tbl
                  else (case pid server of
                          None \<Rightarrow> tbl
                        | Some p \<Rightarrow> if p = 0 then tbl else savePid n p tbl))
               (servers st) (db_pids st)\<rparr>"

text \<open>
  \<open>saveLocalConfig\<close>: the configuration of every server in the live map whose name has
  neither \<open>#\<close> nor \<open>@\<close> is written to the store, whatever the server's status.
\<close>

definition saveLocalConfig :: "ProcessManager \<Rightarrow> ProcessManager" where
  "saveLocalConfig st =
     st\<lparr>db_servers :=
          fold (\<lambda>(n, server) tbl.
                  if is_derived (server_name server) then tbl
                  else upsertServer (config server) tbl)
               (servers st) (db_servers st)\<rparr>"

text \<open>
  \<open>stopServer\<close>. The base name used for draining the queue is the part of the name
  before the first \<open>#\<close>. Closing the client and the transport acts on the server object,
  which has left the map by then.
\<close>

definition stopServer :: "string \<Rightarrow> ProcessManager \<Rightarrow> ProcessManager" where
  "stopServer n st =
     (let st1 = st\<lparr>reconnectTimers := AList.delete n (reconnectTimers st)\<rparr>
      in case map_of (servers st1) n of
           None \<Rightarrow> st1
         | Some server \<Rightarrow>
             (let st2 = st1\<lparr>servers := AList.delete n (servers st1)\<rparr>;
                  base = (if includes_char n (CHR ''#'')
                          then takeWhile (\<lambda>c. c \<noteq> CHR ''#'') n else n);
                  st3 = drainServer base st2
              in if \<not> includes_char n (CHR ''@'') \<and> \<not> includes_char n (CHR ''#'')
                 then saveLocalConfig (savePids st3)
                 else st3))"

text \<open>\<open>lines.slice(-n)\<close>: the last \<open>n\<close> elements.\<close>

definition slice_last :: "nat \<Rightarrow> 'a list \<Rightarrow> 'a list" where
  "slice_last n xs = drop (length xs - n) xs"

subsection \<open>Reconnect\<close>

text \<open>
  \<open>_scheduleReconnect\<close>: unless the server is stopped or has used its attempts, the
  attempt counter goes up and a timer with the delay \<open>base * 2 ^ attempts\<close> is stored
  under the server's name.
\<close>

definition scheduleReconnect :: "ManagedServer \<Rightarrow> (string \<times> nat) list
    \<Rightarrow> ManagedServer \<times> (string \<times> nat) list" where
  "scheduleReconnect managed timers =
     (if status managed = Stopped then (managed, timers)
      else if reconnectAttempts managed \<ge> AUTO_RECONNECT_MAX_RETRIES then (managed, timers)
      else
        (let delay = AUTO_RECONNECT_BASE_DELAY_MS * 2 ^ reconnectAttempts managed
         in (managed\<lparr>reconnectAttempts := reconnectAttempts managed + 1\<rparr>,
             AList.update (server_name managed) delay timers)))"

text \<open>\<open>s.toLowerCase()\<close> on the letters A to Z.\<close>

definition to_lower_char :: "char \<Rightarrow> char" where
  "to_lower_char c =
     (case map_of (zip ''ABCDEFGHIJKLMNOPQRSTUVWXYZ'' ''abcdefghijklmnopqrstuvwxyz'') c of
        None \<Rightarrow> c | Some l \<Rightarrow> l)"

definition isPermanentFailure :: "string list \<Rightarrow> bool" where
  "isPermanentFailure buf =
     (let stderrText = map to_lower_char (join_nl buf)
      in includes_str stderrText ''e404'' \<or>
         includes_str stderrText ''not found'' \<or>
         includes_str stderrText ''enoent'' \<or>
         includes_str stderrText ''command not found'' \<or>
         includes_str stderrText ''not in this registry'')"

text \<open>
  The \<open>onclose\<close> handler that \<open>_spawnStdio\<close> installs. It returns early for a
  session instance and for a permanent failure, and schedules a reconnect otherwise.
\<close>

definition onclose_stdio :: "ManagedServer \<Rightarrow> (string \<times> nat) list
    \<Rightarrow> ManagedServer \<times> (string \<times> nat) list" where
  "onclose_stdio managed timers =
     (if status managed = Connected \<or> status managed = Connecting then
        (let m1 = managed\<lparr>status := Error,
                errorMessage := Some ''Server process exited unexpectedly. Check stderr for details.''\<rparr>
         in if includes_char (name (config managed)) (CHR ''@'') then (m1, timers)
            else if isPermanentFailure (stderrBuffer m1) then
              (m1\<lparr>errorMessage :=
                     Some (''Permanent failure: '' @ join_nl (slice_last 5 (stderrBuffer m1)))\<rparr>,
               timers)
            else scheduleReconnect m1 timers)
      else (managed, timers))"

text \<open>The \<open>onclose\<close> handler that \<open>_spawnSSE\<close> installs.\<close>

definition onclose_sse :: "ManagedServer \<Rightarrow> (string \<times> nat) list
    \<Rightarrow> ManagedServer \<times> (string \<times> nat) list" where
  "onclose_sse managed timers =
     (if status managed = Connected \<or> status managed = Connecting then
        scheduleReconnect
          (managed\<lparr>status := Error,
                   errorMessage := Some ''SSE connection closed unexpectedly.''\<rparr>) timers
      else (managed, timers))"

text \<open>The \<open>onclose\<close> handler that \<open>_spawnStreamableHTTP\<close> installs.\<close>

definition onclose_http :: "ManagedServer \<Rightarrow> (string \<times> nat) list
    \<Rightarrow> ManagedServer \<times> (string \<times> nat) list" where
  "onclose_http managed timers =
     (if status managed = Connected \<or> status managed = Connecting then
        scheduleReconnect
          (managed\<lparr>status := Error,
                   errorMessage := Some ''HTTP connection closed unexpectedly.''\<rparr>) timers
      else (managed, timers))"

text \<open>
  The handler of a server object: the one that the \<open>_spawn\<close> function for the transport
  type of its configuration installed.
\<close>

definition onclose_handler :: "ManagedServer \<Rightarrow> (string \<times> nat) list
    \<Rightarrow> ManagedServer \<times> (string \<times> nat) list" where
  "onclose_handler managed timers =
     (case stype (config managed) of
        STDIO \<Rightarrow> onclose_stdio managed timers
      | SSE \<Rightarrow> onclose_sse managed timers
      | STREAMABLE_HTTP \<Rightarrow> onclose_http managed timers)"

text \<open>A transport close of the server stored under a name.\<close>

definition transport_closed :: "string \<Rightarrow> ProcessManager \<Rightarrow> ProcessManager" where
  "transport_closed n st =
     (case map_of (servers st) n of
        None \<Rightarrow> st
      | Some managed \<Rightarrow>
          (let (m', timers') = onclose_handler managed (reconnectTimers st)
           in st\<lparr>servers := AList.update n m' (servers st), reconnectTimers := timers'\<rparr>))"

subsection \<open>Spawn\<close>

text \<open>
  \<open>_doSpawn\<close> has two points where it waits and other tasks run: the stop of a server
  of the same name, and the connect. It is given here as its three stretches between
  those points, \<open>doSpawn_stop\<close>, \<open>doSpawn_create\<close> and \<open>doSpawn_finish\<close>, and as their
  composition \<open>doSpawn\<close> for a spawn that nothing interleaves with.

  What the outside world answers while the client connects is a parameter: the chunks
  the child writes to stderr, whether the transport closes before the connect settles,
  the error of the connect (\<open>None\<close> when it succeeds), the PID the transport reports,
  and the answer to \<open>listTools\<close> (\<open>None\<close> when it fails). The wait for \<open>listTools\<close>
  is not a stretch of its own.
\<close>

record SpawnOutcome =
  stderr_chunks :: "string list"
  closed_while_connecting :: bool
  connect_error :: "string option"
  transport_pid :: "nat option"
  listed_tools :: "string list option"

text \<open>
  What \<open>_spawnStdio\<close>, \<open>_spawnSSE\<close> and \<open>_spawnStreamableHTTP\<close> throw before they
  create a transport.
\<close>

definition spawn_requirement :: "ServerConfig \<Rightarrow> string option" where
  "spawn_requirement cfg =
     (case stype cfg of
        STDIO \<Rightarrow>
          if falsy_str (command cfg) then Some ''STDIO servers require a command.'' else None
      | SSE \<Rightarrow>
          if falsy_str (url cfg) then Some ''SSE servers require a URL.'' else None
      | STREAMABLE_HTTP \<Rightarrow>
          if falsy_str (url cfg) then Some ''Streamable HTTP servers require a URL.'' else None)"

text \<open>First stretch: a server of the same name is stopped.\<close>

definition doSpawn_stop :: "ServerConfig \<Rightarrow> ProcessManager \<Rightarrow> ProcessManager" where
  "doSpawn_stop cfg st =
     (if map_has (servers st) (name cfg) then stopServer (name cfg) st else st)"

text \<open>
  Second stretch: the new server object is put in the map in status \<open>connecting\<close>, and
  the transport and the client with their handlers are created. When the \<open>_spawn\<close>
  function throws instead, the spawn ends here with the object in status \<open>error\<close>.
  The branch of the source for a transport type other than the three of
  \<open>transport_type\<close> has no counterpart.
\<close>

definition doSpawn_create :: "ServerConfig \<Rightarrow> ProcessManager
    \<Rightarrow> ManagedServer \<times> ProcessManager" where
  "doSpawn_create cfg st =
     (let managed = \<lparr>server_name = name cfg, config = cfg, client = False,
                     transport = False, status = Connecting, tools = [], pid = None,
                     stderrBuffer = [], errorMessage = None, reconnectAttempts = 0\<rparr>;
          m1 = (case spawn_requirement cfg of
                  Some e \<Rightarrow> managed\<lparr>status := Error, errorMessage := Some e\<rparr>
                | None \<Rightarrow> managed\<lparr>transport := True, client := True\<rparr>)
      in (m1, st\<lparr>servers := AList.update (name cfg) m1 (servers st)\<rparr>))"

text \<open>
  Third stretch, when the connect has settled. \<open>managed\<close> is the object as
  \<open>doSpawn_create\<close> returned it. The object is still the entry of the map under its name
  unless \<open>stopServer\<close> has removed it meanwhile, which also set its status to \<open>stopped\<close>
  (\<open>spawnServer\<close> lets no second spawn of the name start before this one has ended).
  The stderr chunks and the close, if any, reach the object through its handlers first.
  On success the object becomes \<open>connected\<close> and \<open>savePids\<close> and \<open>saveLocalConfig\<close> run;
  on failure it is left in status \<open>error\<close> with the error message, and nothing is saved.
\<close>

definition doSpawn_finish :: "ManagedServer \<Rightarrow> SpawnOutcome \<Rightarrow> ProcessManager
    \<Rightarrow> ManagedServer \<times> ProcessManager" where
  "doSpawn_finish managed oc st =
     (if status managed = Error then (managed, st)
      else
        (let n = server_name managed;
             attached = map_has (servers st) n;
             cur = (case map_of (servers st) n of
                      Some m \<Rightarrow> m
                    | None \<Rightarrow> managed\<lparr>status := Stopped\<rparr>);
             m1 = (if stype (config managed) = STDIO
                   then cur\<lparr>stderrBuffer := foldl stderr_on_data (stderrBuffer cur)
                                              (stderr_chunks oc)\<rparr>
                   else cur);
             (m2, timers) = (if closed_while_connecting oc
                             then onclose_handler m1 (reconnectTimers st)
                             else (m1, reconnectTimers st))
         in case connect_error oc of
              None \<Rightarrow>
                (let m3 = m2\<lparr>pid := (if stype (config managed) = STDIO
                                     then transport_pid oc else pid m2),
                             status := Connected, reconnectAttempts := 0,
                             tools := (case listed_tools oc of
                                         None \<Rightarrow> tools m2 | Some ts \<Rightarrow> ts)\<rparr>;
                     st1 = (if attached
                            then st\<lparr>servers := AList.update n m3 (servers st),
                                    reconnectTimers := timers\<rparr>
                            else st)
                 in (m3, saveLocalConfig (savePids st1)))
            | Some e \<Rightarrow>
                (let msg = (if stderrBuffer m2 \<noteq> []
                            then e @ [CHR 0x0A, CHR 0x0A] @ ''Stderr output:'' @ [CHR 0x0A]
                                   @ join_nl (slice_last 10 (stderrBuffer m2))
                            else e);
                     m3 = m2\<lparr>status := Error, errorMessage := Some msg,
                             client := False, transport := False\<rparr>
                 in (m3, if attached
                         then st\<lparr>servers := AList.update n m3 (servers st),
                                 reconnectTimers := timers\<rparr>
                         else st))))"

text \<open>\<open>_doSpawn\<close> with nothing in between its stretches.\<close>

definition doSpawn :: "ServerConfig \<Rightarrow> SpawnOutcome \<Rightarrow> ProcessManager
    \<Rightarrow> ManagedServer \<times> ProcessManager" where
  "doSpawn cfg oc st =
     (let (managed, st1) = doSpawn_create cfg (doSpawn_stop cfg st)
      in doSpawn_finish managed oc st1)"

text \<open>
  \<open>spawnServer\<close> makes concurrent spawns of one name wait for each other and then runs
  \<open>_doSpawn\<close>; for one task at a time it is \<open>_doSpawn\<close>.
\<close>

definition spawnServer :: "ServerConfig \<Rightarrow> SpawnOutcome \<Rightarrow> ProcessManager
    \<Rightarrow> ManagedServer \<times> ProcessManager" where
  "spawnServer cfg oc st = doSpawn cfg oc st"

subsection \<open>Session instances\<close>

text \<open>
  The configuration that \<open>_callStatefulInstance\<close> spawns for a session: a copy of the
  primary's configuration under the name \<open>base@\<close> followed by the first eight characters
  of the session id. For a STDIO primary run by \<open>npx\<close> or \<open>node\<close>, a Playwright server
  gets the argument \<open>--isolated\<close> and a Puppeteer server a fresh directory \<open>tempDir\<close>.
\<close>

definition sessionConfig :: "ServerConfig \<Rightarrow> string \<Rightarrow> string \<Rightarrow> ServerConfig" where
  "sessionConfig primaryConfig sessionId tempDir =
     (let internal = name primaryConfig @ ''@'' @ take 8 sessionId;
          cfg = primaryConfig\<lparr>name := internal\<rparr>
      in case args primaryConfig of
           None \<Rightarrow> cfg
         | Some a \<Rightarrow>
             if stype primaryConfig = STDIO \<and>
                (command primaryConfig = Some ''npx'' \<or> command primaryConfig = Some ''node'')
             then
               (let argsStr = map to_lower_char (join_str '' '' a)
                in if includes_str argsStr ''playwright''
                   then cfg\<lparr>args := Some (a @ [''--isolated''])\<rparr>
                   else if includes_str argsStr ''puppeteer''
                   then cfg\<lparr>args := Some (a @ [''--user-data-dir='' @ tempDir])\<rparr>
                   else cfg)
             else cfg)"

subsection \<open>Pool scaling\<close>

text \<open>The loop \<open>while (existingIndexes.has(newIndex)) newIndex++\<close>.\<close>

function next_free :: "nat list \<Rightarrow> nat \<Rightarrow> nat" where
  "next_free used n = (if n \<in> set used then next_free used (Suc n) else n)"
  by pat_completeness auto
termination
proof (relation "measure (\<lambda>(used, n). Suc (Max (set used)) - n)")
  show "wf (measure (\<lambda>(used, n). Suc (Max (set used)) - n))" by simp
next
  fix used :: "nat list" and n :: nat
  assume "n \<in> set used"
  then have "n \<le> Max (set used)" by simp
  then show "((used, Suc n), (used, n)) \<in> measure (\<lambda>(used, n). Suc (Max (set used)) - n)"
    by simp
qed

declare next_free.simps [simp del]

text \<open>
  \<open>_handleScaleUp\<close> waits three times: for the stop of a server that already has the
  new name, for the connect of the new instance, and for the stop of an instance that
  failed to connect. Where a call of \<open>_handleScaleUp\<close> stands between its stretches:
  not running, waiting for the stop before the spawn (with the new index and the
  configuration to spawn), waiting for the connect (with the new index and the server
  object), or waiting for the stop of the failed instance.
\<close>

datatype scale_task =
    ScaleIdle
  | ScaleStopping nat ServerConfig
  | ScaleSpawning nat ManagedServer
  | ScaleFinishing

text \<open>The \<open>finally\<close> block: the in-flight mark and the pending flag are cleared.\<close>

definition scaleUp_finally :: "string \<Rightarrow> ProcessManager \<Rightarrow> ProcessManager" where
  "scaleUp_finally base st =
     clearPendingScaleUp base
       (st\<lparr>scalingInProgress := removeAll base (scalingInProgress st)\<rparr>)"

text \<open>
  \<open>_handleScaleUp\<close> from the signal to its first wait. The first check returns at once
  while a scale-up of the same base is in flight; the next two refuse and clear the
  pending flag. Otherwise the new index is chosen among the indices of the registered
  instances, the base is marked in flight, and the spawn of the primary's configuration
  under the name \<open>base#newIndex\<close> begins.
\<close>

definition handleScaleUp :: "nat \<Rightarrow> string \<Rightarrow> ProcessManager \<Rightarrow> scale_task \<times> ProcessManager" where
  "handleScaleUp max_instances base st =
     (if base \<in> set (scalingInProgress st) then (ScaleIdle, st)
      else
        (let insts = getInstances st base
         in if length insts \<ge> max_instances then (ScaleIdle, clearPendingScaleUp base st)
            else
              (case map_of (servers st) base of
                 None \<Rightarrow> (ScaleIdle, clearPendingScaleUp base st)
               | Some primaryServer \<Rightarrow>
                   if stype (config primaryServer) \<noteq> STDIO \<or>
                      stateful (config primaryServer) = Some True
                   then (ScaleIdle, clearPendingScaleUp base st)
                   else
                     (let newIndex = next_free (map index insts) 1;
                          internal = base @ ''#'' @ show_nat newIndex;
                          st1 = st\<lparr>scalingInProgress :=
                                     List.insert base (scalingInProgress st)\<rparr>;
                          cfg = (config primaryServer)\<lparr>name := internal\<rparr>
                      in if map_has (servers st1) internal
                         then (ScaleStopping newIndex cfg, doSpawn_stop cfg st1)
                         else (let (managed, st2) = doSpawn_create cfg st1
                               in (ScaleSpawning newIndex managed, st2))))))"

text \<open>
  \<open>_handleScaleUp\<close> from one wait to the next. After the connect, a connected instance
  is registered with the queue and a dispatch is triggered; a failed one is stopped if
  it is in the map. The primary is not looked at again. The \<open>finally\<close> block runs when
  the call ends. A spawn that ended when the server was created, because the \<open>_spawn\<close>
  function threw, takes the same step as one whose connect failed.
\<close>

definition scaleUp_step :: "string \<Rightarrow> scale_task \<Rightarrow> SpawnOutcome \<Rightarrow> nat \<Rightarrow> ProcessManager
    \<Rightarrow> scale_task \<times> ProcessManager" where
  "scaleUp_step base task oc now st =
     (case task of
        ScaleIdle \<Rightarrow> (ScaleIdle, st)
      | ScaleStopping newIndex cfg \<Rightarrow>
          (let (managed, st1) = doSpawn_create cfg st
           in (ScaleSpawning newIndex managed, st1))
      | ScaleSpawning newIndex m0 \<Rightarrow>
          (let internal = base @ ''#'' @ show_nat newIndex;
               (managed, st1) = doSpawn_finish m0 oc st
           in if status managed = Connected
              then (ScaleIdle,
                    scaleUp_finally base
                      (dispatch base now
                         (registerInstance
                            \<lparr>internalName = internal, baseName = base, index = newIndex,
                             busy = False, lastActiveAt = now\<rparr> st1)))
              else if map_has (servers st1) internal
              then (ScaleFinishing, stopServer internal st1)
              else (ScaleIdle, scaleUp_finally base st1))
      | ScaleFinishing \<Rightarrow> (ScaleIdle, scaleUp_finally base st))"

text \<open>A whole call of \<open>_handleScaleUp\<close> with nothing in between its stretches.\<close>

definition handleScaleUp_run :: "nat \<Rightarrow> string \<Rightarrow> SpawnOutcome \<Rightarrow> nat \<Rightarrow> ProcessManager
    \<Rightarrow> ProcessManager" where
  "handleScaleUp_run max_instances base oc now st =
     (let (t0, st0) = handleScaleUp max_instances base st;
          (t1, st1) = scaleUp_step base t0 oc now st0;
          (t2, st2) = scaleUp_step base t1 oc now st1;
          (t3, st3) = scaleUp_step base t2 oc now st2
      in st3)"

section \<open>Tool handlers (\<open>tools.ts\<close>)\<close>

text \<open>The schema check \<open>/^[a-zA-Z0-9_-]+$/\<close> on a name.\<close>

definition valid_name :: "string \<Rightarrow> bool" where
  "valid_name n =
     (n \<noteq> [] \<and>
      set n \<subseteq> set ''abcdefghijklmnopqrstuvwxyzABCDEFGHIJKLMNOPQRSTUVWXYZ0123456789_-'')"

subsection \<open>\<open>add_managed_server\<close>\<close>

text \<open>
  What the handler returns: a request the schema rejects, the two validation errors,
  the error result for a spawn that ended in status \<open>error\<close> (with the message shown),
  or the success result.
\<close>

datatype add_result =
    AddInvalidParams
  | AddNeedsCommand
  | AddNeedsUrl
  | AddFailedToStart string
  | AddStarted

text \<open>
  The handler builds the configuration from the parameters, spawns it, and writes it to
  the store itself only when the spawn did not end in status \<open>error\<close>.
\<close>

definition add_managed_server :: "ServerConfig \<Rightarrow> SpawnOutcome \<Rightarrow> ProcessManager
    \<Rightarrow> add_result \<times> ProcessManager" where
  "add_managed_server params oc st =
     (if \<not> valid_name (name params) then (AddInvalidParams, st)
      else if stype params = STDIO \<and> falsy_str (command params) then (AddNeedsCommand, st)
      else if (stype params = SSE \<or> stype params = STREAMABLE_HTTP) \<and> falsy_str (url params)
      then (AddNeedsUrl, st)
      else
        (let is_stateful = (case stateful params of
                              None \<Rightarrow> name params \<in> set KNOWN_STATEFUL_SERVERS
                            | Some b \<Rightarrow> b);
             cfg = params\<lparr>args := Some (case args params of None \<Rightarrow> [] | Some a \<Rightarrow> a),
                          env := Some (case env params of None \<Rightarrow> [] | Some e \<Rightarrow> e),
                          stateful := Some is_stateful\<rparr>;
             (managed, st1) = spawnServer cfg oc st
         in if status managed = Error
            then (AddFailedToStart
                    (case errorMessage managed of None \<Rightarrow> ''Unknown error'' | Some e \<Rightarrow> e),
                  st1)
            else (AddStarted, st1\<lparr>db_servers := upsertServer cfg (db_servers st1)\<rparr>)))"

subsection \<open>Profiles\<close>

text \<open>
  \<open>ProfileServer\<close> and \<open>Profile\<close>; the fields carry the prefix \<open>p_\<close> here. A table of
  profiles, the built-in \<open>profilesConfig\<close> as well as the \<open>profiles\<close> table of the
  store, is an association list from the profile's name.
\<close>

record ProfileServer =
  p_name :: string
  p_command :: string
  p_args :: "string list"
  p_description :: string
  p_env :: "(string \<times> string) list option"

record Profile =
  p_summary :: string
  p_servers :: "ProfileServer list"

text \<open>One entry of the \<open>servers\<close> parameter of \<open>create_profile\<close>: the description is optional.\<close>

record ProfileServerParam =
  q_name :: string
  q_command :: string
  q_args :: "string list"
  q_description :: "string option"

definition upsertProfile :: "string \<Rightarrow> Profile \<Rightarrow> (string \<times> Profile) list
    \<Rightarrow> (string \<times> Profile) list" where
  "upsertProfile n profile tbl = AList.update n profile tbl"

definition removeProfile :: "string \<Rightarrow> (string \<times> Profile) list
    \<Rightarrow> bool \<times> (string \<times> Profile) list" where
  "removeProfile n tbl = (map_has tbl n, AList.delete n tbl)"

text \<open>
  \<open>profilesConfig[name]\<close>. \<open>profilesConfig\<close> is the object that \<open>JSON.parse\<close> made of the
  descriptor file, or \<open>{}\<close>: besides its own keys, the property names it inherits from
  \<open>Object.prototype\<close> give a value, a truthy one that is no profile and has no
  \<open>servers\<close>.
\<close>

definition OBJECT_PROTOTYPE_KEYS :: "string list" where
  "OBJECT_PROTOTYPE_KEYS =
     [''constructor'', ''__defineGetter__'', ''__defineSetter__'', ''hasOwnProperty'',
      ''__lookupGetter__'', ''__lookupSetter__'', ''isPrototypeOf'',
      ''propertyIsEnumerable'', ''toString'', ''valueOf'', ''__proto__'',
      ''toLocaleString'']"

datatype builtin_lookup = OwnProfile Profile | InheritedProperty | NoProperty

definition profilesConfig_get :: "(string \<times> Profile) list \<Rightarrow> string \<Rightarrow> builtin_lookup" where
  "profilesConfig_get profilesConfig n =
     (case map_of profilesConfig n of
        Some profile \<Rightarrow> OwnProfile profile
      | None \<Rightarrow> if n \<in> set OBJECT_PROTOTYPE_KEYS then InheritedProperty else NoProperty)"

datatype profile_result =
    ProfileInvalidParams
  | ProfileNeedsServer
  | ProfileCreated
  | ProfileIsBuiltin
  | ProfileNotInDatabase
  | ProfileDeleted

text \<open>
  \<open>create_profile\<close>. The handler can see the built-in profiles \<open>profilesConfig\<close> but does
  not look at them: after the schema check and the check for an empty server list the
  profile is written to the store under the given name.
\<close>

definition create_profile :: "(string \<times> Profile) list \<Rightarrow> string \<Rightarrow> string
    \<Rightarrow> ProfileServerParam list \<Rightarrow> (string \<times> Profile) list
    \<Rightarrow> profile_result \<times> (string \<times> Profile) list" where
  "create_profile profilesConfig n summary srvs tbl =
     (if \<not> valid_name n then (ProfileInvalidParams, tbl)
      else if srvs = [] then (ProfileNeedsServer, tbl)
      else
        (ProfileCreated,
         upsertProfile n
           \<lparr>p_summary = summary,
            p_servers =
              map (\<lambda>s. \<lparr>p_name = q_name s, p_command = q_command s, p_args = q_args s,
                         p_description = (case or_null (q_description s) of
                                            None \<Rightarrow> q_name s | Some d \<Rightarrow> d),
                         p_env = None\<rparr>) srvs\<rparr>
           tbl))"

text \<open>
  \<open>delete_profile\<close>: a name for which \<open>profilesConfig[name]\<close> is truthy is refused as a
  built-in before the store is touched.
\<close>

definition delete_profile :: "(string \<times> Profile) list \<Rightarrow> string \<Rightarrow> (string \<times> Profile) list
    \<Rightarrow> profile_result \<times> (string \<times> Profile) list" where
  "delete_profile profilesConfig n tbl =
     (if profilesConfig_get profilesConfig n \<noteq> NoProperty then (ProfileIsBuiltin, tbl)
      else
        (let (removed, tbl') = removeProfile n tbl
         in if \<not> removed then (ProfileNotInDatabase, tbl') else (ProfileDeleted, tbl')))"

text \<open>
  The servers \<open>activate_profile\<close> and \<open>deactivate_profile\<close> take for a profile name: those
  of the built-in profile when \<open>profilesConfig[name]\<close> is truthy, those of the stored
  profile otherwise. For an inherited property the handler fails on the missing
  \<open>servers\<close> and returns its error result; without a built-in and without a stored
  profile it returns the not-found result.
\<close>

datatype profile_lookup =
    ProfileServers "ProfileServer list"
  | ProfileLookupFailed
  | ProfileNotFound

definition profile_servers :: "(string \<times> Profile) list \<Rightarrow> (string \<times> Profile) list \<Rightarrow> string
    \<Rightarrow> profile_lookup" where
  "profile_servers profilesConfig tbl n =
     (case profilesConfig_get profilesConfig n of
        OwnProfile builtinProfile \<Rightarrow> ProfileServers (p_servers builtinProfile)
      | InheritedProperty \<Rightarrow> ProfileLookupFailed
      | NoProperty \<Rightarrow>
          (case map_of tbl n of
             None \<Rightarrow> ProfileNotFound
           | Some dbProfile \<Rightarrow> ProfileServers (p_servers dbProfile)))"

text \<open>
  The profiles \<open>list_profiles\<close> shows, each with its name, whether it is shown as
  built-in, and its description: the own entries of \<open>profilesConfig\<close>, then the stored
  profiles whose name is not an own key of \<open>profilesConfig\<close>.
\<close>

definition list_profiles :: "(string \<times> Profile) list \<Rightarrow> (string \<times> Profile) list
    \<Rightarrow> (string \<times> bool \<times> string) list" where
  "list_profiles profilesConfig tbl =
     map (\<lambda>(n, profile). (n, True, p_summary profile)) profilesConfig @
     map (\<lambda>(n, dbProfile). (n, False, p_summary dbProfile))
       (filter (\<lambda>(n, dbProfile). n \<notin> fst ` set profilesConfig) tbl)"

section \<open>Scenarios\<close>

text \<open>Concrete inputs for the statements below.\<close>

definition empty_manager :: ProcessManager where
  "empty_manager =
     \<lparr>servers = [], reconnectTimers = [], scalingInProgress = [], queues = [],
      instances = [], pendingScaleUps = [], db_servers = [], db_pids = []\<rparr>"

text \<open>Parameters of \<open>add_managed_server\<close> for a STDIO server and for an SSE server.\<close>

definition stdio_params :: "string \<Rightarrow> string \<Rightarrow> ServerConfig" where
  "stdio_params n cmd =
     \<lparr>name = n, stype = STDIO, command = Some cmd, args = None, env = None, url = None,
      description = None, headers = None, stateful = None\<rparr>"

definition sse_params :: "string \<Rightarrow> string \<Rightarrow> bool \<Rightarrow> ServerConfig" where
  "sse_params n u sf =
     \<lparr>name = n, stype = SSE, command = None, args = None, env = None, url = Some u,
      description = None, headers = None, stateful = Some sf\<rparr>"

definition http_params :: "string \<Rightarrow> string \<Rightarrow> bool \<Rightarrow> ServerConfig" where
  "http_params n u sf =
     \<lparr>name = n, stype = STREAMABLE_HTTP, command = None, args = None, env = None,
      url = Some u, description = None, headers = None, stateful = Some sf\<rparr>"

text \<open>A connect that fails with an error, and one that succeeds with a PID and no tools.\<close>

definition connect_fails :: "string \<Rightarrow> SpawnOutcome" where
  "connect_fails e =
     \<lparr>stderr_chunks = [], closed_while_connecting = False, connect_error = Some e,
      transport_pid = None, listed_tools = None\<rparr>"

definition connect_succeeds :: "nat option \<Rightarrow> SpawnOutcome" where
  "connect_succeeds p =
     \<lparr>stderr_chunks = [], closed_while_connecting = False, connect_error = None,
      transport_pid = p, listed_tools = Some []\<rparr>"

text \<open>A connect that fails after the child has exited: the transport closes first.\<close>

definition child_exits :: "string \<Rightarrow> SpawnOutcome" where
  "child_exits e =
     \<lparr>stderr_chunks = [], closed_while_connecting = True, connect_error = Some e,
      transport_pid = None, listed_tools = None\<rparr>"

text \<open>
  A manager with one connected primary of the given configuration, whose pool has the
  primary and a scaled instance of index 2 registered, both busy, and whose pending
  scale-up flag is set.
\<close>

definition busy_pool :: "ServerConfig \<Rightarrow> ProcessManager" where
  "busy_pool cfg =
     \<lparr>servers = [(name cfg,
                   \<lparr>server_name = name cfg, config = cfg, client = True, transport = True,
                    status = Connected, tools = [], pid = None, stderrBuffer = [],
                    errorMessage = None, reconnectAttempts = 0\<rparr>)],
      reconnectTimers = [], scalingInProgress = [], queues = [],
      instances = [(name cfg,
                    [\<lparr>internalName = name cfg, baseName = name cfg, index = 0,
                      busy = True, lastActiveAt = 0\<rparr>,
                     \<lparr>internalName = name cfg @ ''#2'', baseName = name cfg, index = 2,
                      busy = True, lastActiveAt = 0\<rparr>])],
      pendingScaleUps = [name cfg], db_servers = [], db_pids = []\<rparr>"


text \<open>
  A manager whose pool of \<open>w\<close> has been drained by the stop of another instance: the
  scaled instance \<open>w#1\<close> is still running but no longer registered, the primary has
  been registered again and is busy, and the pending flag is set.
\<close>

definition drained_pool :: ProcessManager where
  "drained_pool =
     \<lparr>servers =
        [(''w'',
          \<lparr>server_name = ''w'', config = stdio_params ''w'' ''uvx'', client = True,
           transport = True, status = Connected, tools = [], pid = Some 100,
           stderrBuffer = [], errorMessage = None, reconnectAttempts = 0\<rparr>),
         (''w#1'',
          \<lparr>server_name = ''w#1'', config = stdio_params ''w#1'' ''uvx'', client = True,
           transport = True, status = Connected, tools = [], pid = Some 101,
           stderrBuffer = [], errorMessage = None, reconnectAttempts = 0\<rparr>)],
      reconnectTimers = [], scalingInProgress = [],
      queues = [(''w'', [\<lparr>serverName = ''w'', toolName = ''fetch'', enqueuedAt = 1000\<rparr>])],
      instances = [(''w'', [\<lparr>internalName = ''w'', baseName = ''w'', index = 0,
                             busy = True, lastActiveAt = 0\<rparr>])],
      pendingScaleUps = [''w''], db_servers = [], db_pids = []\<rparr>"



text \<open>A built-in profile table with the one profile \<open>web\<close>, and a one-entry parameter list.\<close>

definition builtin_web :: "(string \<times> Profile) list" where
  "builtin_web =
     [(''web'',
       \<lparr>p_summary = ''Web tools'',
        p_servers = [\<lparr>p_name = ''fetch-server'', p_command = ''uvx'',
                      p_args = [''mcp-server-fetch''], p_description = ''Fetch'',
                      p_env = None\<rparr>]\<rparr>)]"

definition one_server :: "ProfileServerParam list" where
  "one_server =
     [\<lparr>q_name = ''notes'', q_command = ''npx'', q_args = [''notes-mcp''],
       q_description = None\<rparr>]"

section \<open>Properties of the stderr capture\<close>

lemma split_nl_no_newline:
  "CHR 0x0A \<notin> set s \<Longrightarrow> split_nl s = [s]"
  by (induction s) auto

lemma stderr_line_length:
  "length (stderr_line l) \<le> MAX_STDERR_LINE_LENGTH + 3"
  by (simp add: stderr_line_def)

lemma stderr_push_last:
  assumes "length buf \<le> MAX_STDERR_LINES"
  shows "stderr_push l buf =
           drop (length (buf @ [stderr_line l]) - MAX_STDERR_LINES) (buf @ [stderr_line l])"
proof (cases "length buf < MAX_STDERR_LINES")
  case True
  then show ?thesis by (simp add: stderr_push_def Let_def)
next
  case False
  with assms have len: "length buf = MAX_STDERR_LINES" by simp
  let ?x = "buf @ [stderr_line l]"
  have one: "length ?x - MAX_STDERR_LINES = Suc 0" using len by simp
  have over: "length ?x > MAX_STDERR_LINES" using len by simp
  have "stderr_push l buf = tl ?x" using over by (simp add: stderr_push_def Let_def)
  also have "\<dots> = drop (Suc 0) ?x" by (simp only: drop_Suc drop_0)
  finally show ?thesis by (simp only: one)
qed

lemma stderr_push_length:
  assumes "length buf \<le> MAX_STDERR_LINES"
  shows "length (stderr_push l buf) \<le> MAX_STDERR_LINES"
  using assms by (simp add: stderr_push_def Let_def)

lemma drop_last_append:
  fixes n :: nat
  shows "drop (length (drop (length xs - n) xs @ ys) - n) (drop (length xs - n) xs @ ys)
         = drop (length (xs @ ys) - n) (xs @ ys)"
proof (cases "length xs \<le> n")
  case True
  then show ?thesis by simp
next
  case False
  then have a: "length (drop (length xs - n) xs @ ys) - n = length ys" by simp
  have b: "length (xs @ ys) - n = (length xs - n) + length ys" using False by simp
  have "drop (length (xs @ ys) - n) (xs @ ys)
        = drop (length ys) (drop (length xs - n) (xs @ ys))"
    by (simp only: b drop_drop add.commute)
  also have "\<dots> = drop (length ys) (drop (length xs - n) xs @ ys)"
    using False by simp
  finally show ?thesis by (simp only: a)
qed

lemma fold_stderr_push:
  "length buf \<le> MAX_STDERR_LINES \<Longrightarrow>
   fold stderr_push ls buf =
     drop (length (buf @ map stderr_line ls) - MAX_STDERR_LINES) (buf @ map stderr_line ls)"
proof (induction ls arbitrary: buf)
  case Nil
  then show ?case by simp
next
  case (Cons l ls)
  let ?b = "stderr_push l buf"
  let ?x = "buf @ [stderr_line l]"
  have b: "?b = drop (length ?x - MAX_STDERR_LINES) ?x"
    using Cons.prems by (rule stderr_push_last)
  have "fold stderr_push (l # ls) buf = fold stderr_push ls ?b" by simp
  also have "\<dots> = drop (length (?b @ map stderr_line ls) - MAX_STDERR_LINES)
                       (?b @ map stderr_line ls)"
    using Cons.prems by (intro Cons.IH stderr_push_length)
  also have "\<dots> = drop (length (?x @ map stderr_line ls) - MAX_STDERR_LINES)
                       (?x @ map stderr_line ls)"
    unfolding b by (rule drop_last_append)
  finally show ?case by simp
qed

lemma foldl_stderr_on_data:
  "length buf \<le> MAX_STDERR_LINES \<Longrightarrow>
   foldl stderr_on_data buf chunks =
     drop (length (buf @ map stderr_line (concat (map stderr_lines chunks))) - MAX_STDERR_LINES)
          (buf @ map stderr_line (concat (map stderr_lines chunks)))"
proof (induction chunks arbitrary: buf)
  case Nil
  then show ?case by simp
next
  case (Cons c cs)
  let ?x = "buf @ map stderr_line (stderr_lines c)"
  let ?b = "stderr_on_data buf c"
  let ?r = "map stderr_line (concat (map stderr_lines cs))"
  have b: "?b = drop (length ?x - MAX_STDERR_LINES) ?x"
    unfolding stderr_on_data_def using Cons.prems by (rule fold_stderr_push)
  then have len: "length ?b \<le> MAX_STDERR_LINES" by simp
  have "foldl stderr_on_data buf (c # cs) = foldl stderr_on_data ?b cs" by simp
  also have "\<dots> = drop (length (?b @ ?r) - MAX_STDERR_LINES) (?b @ ?r)"
    using len by (rule Cons.IH)
  also have "\<dots> = drop (length (?x @ ?r) - MAX_STDERR_LINES) (?x @ ?r)"
    unfolding b by (rule drop_last_append)
  finally show ?case by simp
qed

text \<open>
  Claim C5, as stated, fails: a raw line of 1001 characters is stored as its first 1000
  characters followed by \<open>...\<close>, a captured line of 1003 characters.
\<close>

theorem stderr_line_over_1000:
  "map length (stderr_on_data [] (replicate 1001 (CHR ''a''))) = [1003]"
proof -
  have "split_nl (replicate 1001 (CHR ''a'')) = [replicate 1001 (CHR ''a'')]"
    by (rule split_nl_no_newline) simp
  then show ?thesis
    by (simp add: stderr_on_data_def stderr_lines_def stderr_push_def stderr_line_def
        MAX_STDERR_LINE_LENGTH_def MAX_STDERR_LINES_def Let_def)
qed

text \<open>
  Claim C5, amended: after any sequence of chunks read from a LOCAL worker's stderr
  stream, the tail is the last 50 of all captured lines in the order they arrived (so
  it has at most 50 lines and the oldest is dropped first), and each captured line is
  at most 1003 characters long: a raw line of at most 1000 characters is stored as it
  is, a longer one as its first 1000 characters followed by \<open>...\<close>.
\<close>

theorem stderr_tail_bounds:
  "stderr_tail chunks =
     slice_last 50 (map stderr_line (concat (map stderr_lines chunks))) \<and>
   length (stderr_tail chunks) \<le> 50 \<and>
   (\<forall>l \<in> set (stderr_tail chunks). length l \<le> 1003) \<and>
   (\<forall>raw. stderr_line raw = (if length raw \<le> 1000 then raw else take 1000 raw @ ''...''))"
proof -
  let ?all = "map stderr_line (concat (map stderr_lines chunks))"
  have eq: "stderr_tail chunks = slice_last 50 ?all"
    using foldl_stderr_on_data [of "[]" chunks]
    by (simp add: stderr_tail_def slice_last_def MAX_STDERR_LINES_def)
  have "length (slice_last 50 ?all) \<le> 50" by (simp add: slice_last_def)
  moreover have "\<forall>l \<in> set (slice_last 50 ?all). length l \<le> 1003"
  proof
    fix l assume "l \<in> set (slice_last 50 ?all)"
    then have "l \<in> set ?all" unfolding slice_last_def by (rule in_set_dropD)
    then obtain raw where "l = stderr_line raw" by auto
    then show "length l \<le> 1003"
      using stderr_line_length [of raw] by (simp add: MAX_STDERR_LINE_LENGTH_def)
  qed
  moreover have "\<forall>raw. stderr_line raw = (if length raw \<le> 1000 then raw else take 1000 raw @ ''...'')"
    by (simp add: stderr_line_def MAX_STDERR_LINE_LENGTH_def)
  ultimately show ?thesis using eq by simp
qed

text \<open>
  Claim C5, amended, at two chunks, the first holding two lines: the tail holds the
  three lines in order, and the line \<open>cd\<close> of the tail is within the bound.
\<close>

theorem stderr_tail_bounds_witness:
  "stderr_tail [''ab'' @ [CHR 0x0A] @ ''cd'', ''ef''] = [''ab'', ''cd'', ''ef''] \<and>
   ''cd'' \<in> set (stderr_tail [''ab'' @ [CHR 0x0A] @ ''cd'', ''ef'']) \<and> length ''cd'' \<le> 1003"
  using stderr_tail_bounds [of "[''ab'' @ [CHR 0x0A] @ ''cd'', ''ef'']"]
  by (simp add: stderr_tail_def stderr_on_data_def stderr_lines_def stderr_push_def stderr_line_def
        MAX_STDERR_LINE_LENGTH_def MAX_STDERR_LINES_def Let_def)

section \<open>Properties of profile creation\<close>

text \<open>What \<open>create_profile\<close> returns and stores does not depend on the built-in profiles.\<close>

lemma create_profile_ignores_builtins:
  "create_profile profilesConfig n summary srvs tbl = create_profile [] n summary srvs tbl"
  by (simp add: create_profile_def)

text \<open>The sibling \<open>delete_profile\<close> refuses every name that is a built-in's.\<close>

lemma delete_profile_guards_builtins:
  "map_has profilesConfig n \<Longrightarrow> delete_profile profilesConfig n tbl = (ProfileIsBuiltin, tbl)"
  by (auto simp: delete_profile_def profilesConfig_get_def map_has_def)

text \<open>
  Claim C4 at the failing input. \<open>web\<close> is a built-in profile. \<open>create_profile\<close> under
  the name \<open>web\<close> returns the success result and the store holds a user bundle under
  that name. The bundle is then out of reach of the tools: \<open>list_profiles\<close> shows only
  the built-in \<open>web\<close>, \<open>activate_profile\<close> and \<open>deactivate_profile\<close> take the
  built-in's servers, and \<open>delete_profile\<close> refuses the name as a built-in's.
\<close>

theorem create_profile_builtin_name_orphan:
  "(let (r, tbl) = create_profile builtin_web ''web'' ''mine'' one_server []
    in map_has builtin_web ''web'' \<and>
       r = ProfileCreated \<and>
       tbl = [(''web'',
               \<lparr>p_summary = ''mine'',
                p_servers = [\<lparr>p_name = ''notes'', p_command = ''npx'',
                              p_args = [''notes-mcp''], p_description = ''notes'',
                              p_env = None\<rparr>]\<rparr>)] \<and>
       list_profiles builtin_web tbl = [(''web'', True, ''Web tools'')] \<and>
       profile_servers builtin_web tbl ''web'' =
         ProfileServers [\<lparr>p_name = ''fetch-server'', p_command = ''uvx'',
                           p_args = [''mcp-server-fetch''], p_description = ''Fetch'',
                           p_env = None\<rparr>] \<and>
       delete_profile builtin_web ''web'' tbl = (ProfileIsBuiltin, tbl))"
  by (simp add: create_profile_def builtin_web_def one_server_def map_has_def valid_name_def
      upsertProfile_def or_null_def falsy_str_def list_profiles_def profile_servers_def
      profilesConfig_get_def delete_profile_def)

text \<open>
  A name that \<open>profilesConfig\<close> only inherits counts as a built-in's as well: a stored
  bundle \<open>constructor\<close> can be created, but neither deleted nor activated.
\<close>

lemma inherited_key_counts_as_builtin:
  "delete_profile [] ''constructor'' (snd (create_profile [] ''constructor'' ''mine'' one_server []))
     = (ProfileIsBuiltin, snd (create_profile [] ''constructor'' ''mine'' one_server [])) \<and>
   profile_servers [] (snd (create_profile [] ''constructor'' ''mine'' one_server []))
     ''constructor'' = ProfileLookupFailed"
  by (simp add: create_profile_def one_server_def valid_name_def upsertProfile_def
      profile_servers_def profilesConfig_get_def delete_profile_def OBJECT_PROTOTYPE_KEYS_def)

section \<open>Properties of pool scaling\<close>





lemma servers_clearPendingScaleUp [simp]:
  "servers (clearPendingScaleUp b st) = servers st"
  by (simp add: clearPendingScaleUp_def)

lemma servers_registerInstance [simp]: "servers (registerInstance i st) = servers st"
  by (simp add: registerInstance_def Let_def)

lemma servers_dispatch [simp]: "servers (dispatch b now st) = servers st"
  by (simp add: dispatch_def Let_def split: option.splits prod.splits)

lemma flags_registerInstance [simp]:
  "pendingScaleUps (registerInstance i st) = pendingScaleUps st"
  "scalingInProgress (registerInstance i st) = scalingInProgress st"
  by (simp_all add: registerInstance_def Let_def)

lemma flags_dispatch [simp]:
  "pendingScaleUps (dispatch b now st) = pendingScaleUps st"
  "scalingInProgress (dispatch b now st) = scalingInProgress st"
  by (simp_all add: dispatch_def Let_def split: option.splits prod.splits)

lemma scaleUp_finally_fields [simp]:
  "servers (scaleUp_finally b st) = servers st"
  "instances (scaleUp_finally b st) = instances st"
  "pendingScaleUps (scaleUp_finally b st) = removeAll b (pendingScaleUps st)"
  "scalingInProgress (scaleUp_finally b st) = removeAll b (scalingInProgress st)"
  by (simp_all add: scaleUp_finally_def clearPendingScaleUp_def)









text \<open>The scenario of the witness as one call with nothing in between.\<close>

lemma scale_up_example:
  "map (\<lambda>(n, server). (n, status server))
     (servers (handleScaleUp_run 4 ''w'' (connect_succeeds (Some 101)) 7000
        (busy_pool (stdio_params ''w'' ''uvx''))))
     = [(''w'', Connected), (''w#1'', Connected)] \<and>
   map (\<lambda>i. (internalName i, index i))
     (getInstances (handleScaleUp_run 4 ''w'' (connect_succeeds (Some 101)) 7000
        (busy_pool (stdio_params ''w'' ''uvx''))) ''w'')
     = [(''w'', 0), (''w#2'', 2), (''w#1'', 1)]"
  by code_simp

text \<open>
  Outside case (3): in a drained pool the running instance \<open>w#1\<close> is not registered. The
  signal chooses the index 1 again and stops the running \<open>w#1\<close> to spawn its
  replacement.
\<close>

lemma scale_up_replaces_unregistered_instance:
  "map fst (servers drained_pool) = [''w'', ''w#1''] \<and>
   map index (getInstances drained_pool ''w'') = [0] \<and>
   fst (handleScaleUp 4 ''w'' drained_pool) = ScaleStopping 1 (stdio_params ''w#1'' ''uvx'') \<and>
   map fst (servers (snd (handleScaleUp 4 ''w'' drained_pool))) = [''w'']"
  by code_simp

text \<open>
  Outside case (4): the primary \<open>w\<close> is declared again as an SSE server while the connect
  of \<open>w#1\<close> is pending. The primary is not looked at again, and \<open>w#1\<close> is registered
  with the pool of the SSE primary.
\<close>

lemma scale_up_registers_after_redeclare:
  "(let (t, st0) = handleScaleUp 4 ''w'' (busy_pool (stdio_params ''w'' ''uvx''));
        (r, st1) = add_managed_server (sse_params ''w'' ''http://localhost:3001/sse'' False)
                     (connect_succeeds None) st0;
        (t', st2) = scaleUp_step ''w'' t (connect_succeeds (Some 101)) 7000 st1
    in r = AddStarted \<and>
       map (\<lambda>(n, server). (n, stype (config server), status server)) (servers st2)
         = [(''w#1'', STDIO, Connected), (''w'', SSE, Connected)] \<and>
       map (\<lambda>i. (internalName i, index i)) (getInstances st2 ''w'') = [(''w#1'', 1)])"
  by code_simp

section \<open>Properties of reconnect scheduling\<close>

text \<open>
  The handler of a LOCAL instance never touches the timers of an instance whose name
  has an \<open>@\<close>.
\<close>

lemma onclose_stdio_session:
  "includes_char (name (config m)) (CHR ''@'') \<Longrightarrow> snd (onclose_stdio m timers) = timers"
  by (simp add: onclose_stdio_def Let_def)

text \<open>
  The handlers of the two network transports do not look at the name: a connected or
  connecting instance with attempts left gets a timer under its name.
\<close>

lemma onclose_sse_schedules:
  assumes "status m = Connected \<or> status m = Connecting"
    and "reconnectAttempts m < AUTO_RECONNECT_MAX_RETRIES"
  shows "map_of (snd (onclose_sse m timers)) (server_name m) =
           Some (AUTO_RECONNECT_BASE_DELAY_MS * 2 ^ reconnectAttempts m)"
  using assms by (auto simp: onclose_sse_def scheduleReconnect_def Let_def update_conv')

lemma onclose_http_schedules:
  assumes "status m = Connected \<or> status m = Connecting"
    and "reconnectAttempts m < AUTO_RECONNECT_MAX_RETRIES"
  shows "map_of (snd (onclose_http m timers)) (server_name m) =
           Some (AUTO_RECONNECT_BASE_DELAY_MS * 2 ^ reconnectAttempts m)"
  using assms by (auto simp: onclose_http_def scheduleReconnect_def Let_def update_conv')

text \<open>
  A transport that closes while the client connects reaches the \<open>onclose\<close> handler in
  status \<open>connecting\<close>: the failed spawn leaves one attempt counted and a timer set.
\<close>

lemma close_while_connecting_schedules_reconnect:
  "(let (m, st) = doSpawn (stdio_params ''a'' ''nope'') (child_exits ''Connection closed'')
                    empty_manager
    in status m = Error \<and> reconnectAttempts m = 1 \<and> reconnectTimers st = [(''a'', 2000)])"
  by code_simp

text \<open>
  Claim C2 at the failing input. A stateful SSE primary \<open>browser\<close> and the session
  \<open>3f2a9c1e-...\<close>: the session instance \<open>browser@3f2a9c1e\<close> is spawned and connects;
  when its transport closes, a reconnect timer of 2000 ms is stored under its name. The
  same holds for a streamable HTTP primary. For a LOCAL primary no timer is stored.
\<close>

theorem session_instance_close_schedules_reconnect:
  "(let cfg = sessionConfig (sse_params ''browser'' ''http://localhost:3001/sse'' True)
                ''3f2a9c1e-1111-4222-8333-444455556666'' [];
        (m, st1) = spawnServer cfg (connect_succeeds None) empty_manager;
        st2 = transport_closed (name cfg) st1
    in name cfg = ''browser@3f2a9c1e'' \<and> status m = Connected \<and>
       reconnectTimers st1 = [] \<and> reconnectTimers st2 = [(''browser@3f2a9c1e'', 2000)]) \<and>
   (let cfg = sessionConfig (http_params ''browser'' ''http://localhost:3001/mcp'' True)
                ''3f2a9c1e-1111-4222-8333-444455556666'' [];
        (m, st1) = spawnServer cfg (connect_succeeds None) empty_manager;
        st2 = transport_closed (name cfg) st1
    in name cfg = ''browser@3f2a9c1e'' \<and> status m = Connected \<and>
       reconnectTimers st1 = [] \<and> reconnectTimers st2 = [(''browser@3f2a9c1e'', 2000)]) \<and>
   (let cfg = sessionConfig ((stdio_params ''browser'' ''npx'')\<lparr>stateful := Some True\<rparr>)
                ''3f2a9c1e-1111-4222-8333-444455556666'' [];
        (m, st1) = spawnServer cfg (connect_succeeds (Some 4242)) empty_manager;
        st2 = transport_closed (name cfg) st1
    in name cfg = ''browser@3f2a9c1e'' \<and> status m = Connected \<and>
       reconnectTimers st1 = [] \<and> reconnectTimers st2 = [])"
  by code_simp

section \<open>Properties of persistence\<close>

lemma keys_upsertServer:
  "fst ` set (upsertServer cfg tbl) = insert (name cfg) (fst ` set tbl)"
  by (simp add: upsertServer_def dom_update)

lemma keys_saveLocalConfig_fold:
  "fst ` set (fold (\<lambda>(n, server) tbl.
                  if is_derived (server_name server) then tbl
                  else upsertServer (config server) tbl) srvs tbl)
   = fst ` set tbl \<union>
     {name (config server) | server. server \<in> snd ` set srvs \<and> \<not> is_derived (server_name server)}"
proof (induction srvs arbitrary: tbl)
  case Nil
  then show ?case by simp
next
  case (Cons a srvs)
  obtain n server where a: "a = (n, server)" by (cases a)
  show ?case
    unfolding a by (auto simp: Cons.IH keys_upsertServer)
qed

text \<open>
  The save sweep writes the configuration of every server of the live map whose name
  has neither \<open>#\<close> nor \<open>@\<close>; the status of the server plays no part.
\<close>

lemma saveLocalConfig_keys:
  "fst ` set (db_servers (saveLocalConfig st))
   = fst ` set (db_servers st) \<union>
     {name (config server) | server.
        server \<in> snd ` set (servers st) \<and> \<not> is_derived (server_name server)}"
  by (simp add: saveLocalConfig_def keys_saveLocalConfig_fold)

text \<open>
  Claim C1 at the failing input. On an empty manager, \<open>add_managed_server\<close> for the
  LOCAL server \<open>a\<close> whose connect fails returns the error result; the server stays in
  the live map in status \<open>error\<close> and the store is empty. A following
  \<open>add_managed_server\<close> for the server \<open>b\<close>, whose connect succeeds, runs the save
  sweep, and the store then holds the configuration of \<open>a\<close> as well.
\<close>

theorem failed_declare_persisted_by_sweep:
  "(let (r1, st1) = add_managed_server (stdio_params ''a'' ''nope'')
                      (connect_fails ''Connection closed'') empty_manager;
        (r2, st2) = add_managed_server (stdio_params ''b'' ''uvx'')
                      (connect_succeeds (Some 4242)) st1
    in r1 = AddFailedToStart ''Connection closed'' \<and>
       map (\<lambda>(n, server). (n, status server)) (servers st1) = [(''a'', Error)] \<and>
       db_servers st1 = [] \<and>
       r2 = AddStarted \<and>
       map (\<lambda>(n, server). (n, status server)) (servers st2) =
         [(''a'', Error), (''b'', Connected)] \<and>
       map fst (db_servers st2) = [''a'', ''b''])"
  by code_simp

end
